theory Spec2Isabelle
  imports Complex_Main "HOL-Library.AList"
begin

section \<open>JSON values and the JavaScript operators the hub applies to them\<close>

text \<open>
  Every payload the hub reads comes out of \<^verbatim>\<open>JSON.parse\<close> (client frames) or
  \<^verbatim>\<open>request.json()\<close> (the trigger body), so a value is one of the six JSON shapes.
  An object is its own-property list in property order; \<^verbatim>\<open>undefined\<close> is \<open>None\<close>
  of \<open>json option\<close>. What the hub hands to \<^verbatim>\<open>JSON.stringify\<close> before sending is kept
  as the value itself.
\<close>

datatype json =
    JNull
  | JBool bool
  | JNum real
  | JStr string
  | JArr "json list"
  | JObj "(string \<times> json) list"

text \<open>JavaScript truthiness (\<^verbatim>\<open>!x\<close>, \<^verbatim>\<open>x || y\<close>, \<^verbatim>\<open>if (x)\<close>).\<close>

fun truthy_val :: "json \<Rightarrow> bool" where
  "truthy_val JNull = False"
| "truthy_val (JBool b) = b"
| "truthy_val (JNum n) = (n \<noteq> 0)"
| "truthy_val (JStr s) = (s \<noteq> [])"
| "truthy_val (JArr xs) = True"
| "truthy_val (JObj kvs) = True"

fun truthy :: "json option \<Rightarrow> bool" where
  "truthy None = False"
| "truthy (Some v) = truthy_val v"

text \<open>\<^verbatim>\<open>a || b\<close>\<close>

definition js_or :: "json option \<Rightarrow> json option \<Rightarrow> json option" where
  "js_or a b = (if truthy a then a else b)"

text \<open>\<^verbatim>\<open>a ?? b\<close>: only \<^verbatim>\<open>undefined\<close> and \<^verbatim>\<open>null\<close> give way.\<close>

fun js_coalesce :: "json option \<Rightarrow> json \<Rightarrow> json" where
  "js_coalesce None b = b"
| "js_coalesce (Some JNull) b = b"
| "js_coalesce (Some v) b = v"

text \<open>
  Property read \<^verbatim>\<open>msg.k\<close> (and \<^verbatim>\<open>msg?.k\<close>) for the keys the hub reads
  (\<^verbatim>\<open>type\<close>, \<^verbatim>\<open>token\<close>, \<^verbatim>\<open>roomId\<close>, \<^verbatim>\<open>userId\<close>, \<^verbatim>\<open>t\<close>, \<^verbatim>\<open>isTyping\<close>): none of them is a
  property of a primitive or of an array, so only an object can answer.
\<close>

fun get_prop :: "json \<Rightarrow> string \<Rightarrow> json option" where
  "get_prop (JObj kvs) k = map_of kvs k"
| "get_prop v k = None"

text \<open>Decimal rendering of an array index, as property keys are strings.\<close>

fun digit_char :: "nat \<Rightarrow> char" where
  "digit_char n = char_of (48 + n)"

function show_nat :: "nat \<Rightarrow> string" where
  "show_nat n = (if n < 10 then [digit_char n] else show_nat (n div 10) @ [digit_char (n mod 10)])"
  by pat_completeness auto
termination
  by (relation "measure id") auto

definition index_keys :: "'a list \<Rightarrow> (string \<times> 'a) list" where
  "index_keys xs = zip (map show_nat [0..<length xs]) xs"

text \<open>
  Object spread \<^verbatim>\<open>{...m}\<close>: the own enumerable properties of \<^verbatim>\<open>m\<close>. An object gives
  its properties, an array and a string their indexed elements, any other primitive nothing.
\<close>

fun spread :: "json \<Rightarrow> (string \<times> json) list" where
  "spread (JObj kvs) = kvs"
| "spread (JArr xs) = index_keys xs"
| "spread (JStr s) = index_keys (map (\<lambda>ch. JStr [ch]) s)"
| "spread v = []"

text \<open>
  The string a template literal makes of a parsed value placed in it: \<^verbatim>\<open>null\<close>,
  \<^verbatim>\<open>true\<close> and \<^verbatim>\<open>false\<close> by name, a string as itself, an array as its
  elements joined by commas (a \<^verbatim>\<open>null\<close> element as nothing), an object as
  \<^verbatim>\<open>[object Object]\<close>, and a number in decimal: sign, whole part and, when there is
  one, the fraction up to 17 digits. For a number this is the runtime's rendering within
  the range the runtime prints positionally and exactly (zero, or a magnitude from
  0.000001 up to, not including, 1000000000000000000000, with at most 15 significant
  digits); outside it the runtime rounds or switches to exponent form, which is not
  reproduced here.
\<close>

fun frac_digits :: "nat \<Rightarrow> real \<Rightarrow> string" where
  "frac_digits 0 x = []"
| "frac_digits (Suc n) x =
     (if x = 0 then []
      else digit_char (nat \<lfloor>x * 10\<rfloor>) # frac_digits n (x * 10 - real_of_int \<lfloor>x * 10\<rfloor>))"

definition number_text :: "real \<Rightarrow> string" where
  "number_text r =
     (let a = \<bar>r\<bar>; whole = nat \<lfloor>a\<rfloor>; f = a - real whole
      in (if r < 0 then ''-'' else []) @ show_nat whole
         @ (if f = 0 then [] else CHR ''.'' # frac_digits 17 f))"

fun join_commas :: "string list \<Rightarrow> string" where
  "join_commas [] = []"
| "join_commas [s] = s"
| "join_commas (s # t # ss) = s @ '','' @ join_commas (t # ss)"

fun template_text :: "json \<Rightarrow> string" where
  "template_text JNull = ''null''"
| "template_text (JBool b) = (if b then ''true'' else ''false'')"
| "template_text (JNum r) = number_text r"
| "template_text (JStr s) = s"
| "template_text (JArr xs) = join_commas (map (\<lambda>x. if x = JNull then [] else template_text x) xs)"
| "template_text (JObj kvs) = ''[object Object]''"

section \<open>The hub, its connections and the host it runs on\<close>

type_synonym conn_id = string

text \<open>\<^verbatim>\<open>type AuthedConn = Connection & { authed?: boolean; userId?: string }\<close>; the
  flag is only ever tested for truthiness, so an absent flag is \<open>False\<close>.\<close>

record conn =
  authed :: bool
  userId :: "json option"

text \<open>The fields of \<^verbatim>\<open>class Chat\<close>. A timer map holds the handle \<^verbatim>\<open>setTimeout\<close> returned.\<close>

record chat =
  roomId :: "json option"
  authTimers :: "conn_id \<rightharpoonup> nat"
  pingTimers :: "conn_id \<rightharpoonup> nat"
  lastMessage :: json

text \<open>The two closures the hub passes to \<^verbatim>\<open>setTimeout\<close>, each capturing its connection.\<close>

datatype callback = AuthTimeout conn_id | PingTimeout conn_id

text \<open>
  The hub together with what the host keeps for it: the connection objects, the list
  \<^verbatim>\<open>getConnections()\<close> iterates, the clock in milliseconds and the pending one-shot
  timers (handle, due time, closure).
\<close>

record world =
  hub :: chat
  conns :: "conn_id \<Rightarrow> conn"
  live :: "conn_id list"
  clock :: nat
  timer_seq :: nat
  timers :: "(nat \<times> nat \<times> callback) list"

datatype effect =
    Send conn_id json
  | CloseConn conn_id nat string

datatype fetch_result = FetchFailed | FetchResponse nat "json option"

text \<open>
  The bindings of \<^verbatim>\<open>Env\<close> and of the runtime that the handlers use: the answer of the
  backend to the participant check for a room and a token (status and parsed body, the body
  \<open>None\<close> when \<^verbatim>\<open>res.json()\<close> rejects), the shared secret, and the string a template
  literal makes of a value.
\<close>

record env =
  backend :: "json \<Rightarrow> json \<Rightarrow> fetch_result"
  WEBHOOK_TOKEN :: string
  to_text :: "json \<Rightarrow> string"

subsection \<open>Host timers\<close>

text \<open>
  \<^verbatim>\<open>setTimeout(cb, delay)\<close> returns a fresh handle, greater than zero, and the closure
  becomes due \<open>delay\<close> milliseconds after the call. \<^verbatim>\<open>clearTimeout(h)\<close> drops the
  pending timer with that handle, silently when there is none.
\<close>

definition setTimeout :: "world \<Rightarrow> callback \<Rightarrow> nat \<Rightarrow> world \<times> nat" where
  "setTimeout w cb delay =
     (let h = Suc (timer_seq w)
      in (w\<lparr>timer_seq := h, timers := timers w @ [(h, clock w + delay, cb)]\<rparr>, h))"

definition clearTimeout :: "nat \<Rightarrow> (nat \<times> nat \<times> callback) list \<Rightarrow> (nat \<times> nat \<times> callback) list" where
  "clearTimeout h ts = filter (\<lambda>e. fst e \<noteq> h) ts"

subsection \<open>Helpers of the class\<close>

text \<open>\<^verbatim>\<open>sendError\<close>: the error object handed to \<^verbatim>\<open>conn.send\<close>.\<close>

definition error_obj :: "string \<Rightarrow> string \<Rightarrow> json" where
  "error_obj code message =
     JObj [(''type'', JStr ''error''), (''code'', JStr code), (''message'', JStr message)]"

definition sendError :: "conn_id \<Rightarrow> string \<Rightarrow> string \<Rightarrow> effect" where
  "sendError c code message = Send c (error_obj code message)"

record auth_result =
  success :: bool
  result_userId :: "json option"

text \<open>
  \<^verbatim>\<open>checkParticipant\<close>: status 200 is success, with the \<^verbatim>\<open>userId\<close> of the body; a
  body that does not parse counts as \<^verbatim>\<open>{}\<close>; reading \<^verbatim>\<open>userId\<close> of a \<^verbatim>\<open>null\<close> body
  throws inside the \<^verbatim>\<open>try\<close>, which like any other status and a failed fetch is failure.
\<close>

definition checkParticipant :: "env \<Rightarrow> json \<Rightarrow> json \<Rightarrow> auth_result" where
  "checkParticipant e room token =
     (case backend e room token of
        FetchFailed \<Rightarrow> \<lparr>success = False, result_userId = None\<rparr>
      | FetchResponse st data \<Rightarrow>
          if st = 200 then
            (case data of
               None \<Rightarrow> \<lparr>success = True, result_userId = None\<rparr>
             | Some JNull \<Rightarrow> \<lparr>success = False, result_userId = None\<rparr>
             | Some d \<Rightarrow> \<lparr>success = True, result_userId = get_prop d ''userId''\<rparr>)
          else \<lparr>success = False, result_userId = None\<rparr>)"

text \<open>
  Modelled from the spec: \<^verbatim>\<open>broadcast\<close> is inherited from the \<^verbatim>\<open>Server\<close> base class of
  the partyserver package, which is not part of the sources. It delivers the message to
  every connection of the room that is not in the exclusion list (section 4.4: deliver to
  every connection not in the exclusion set); an absent list excludes nobody.
\<close>

definition broadcast :: "world \<Rightarrow> json \<Rightarrow> conn_id list option \<Rightarrow> effect list" where
  "broadcast w msg without =
     map (\<lambda>c. Send c msg)
       (filter (\<lambda>c. case without of None \<Rightarrow> True | Some ex \<Rightarrow> c \<notin> set ex) (live w))"

text \<open>The clear-and-forget of a timer map entry: \<^verbatim>\<open>const t = map.get(id); if (t) { clearTimeout(t); map.delete(id) }\<close>.\<close>

definition clear_auth_timer :: "world \<Rightarrow> conn_id \<Rightarrow> world" where
  "clear_auth_timer w c =
     (case authTimers (hub w) c of
        None \<Rightarrow> w
      | Some t \<Rightarrow>
          if t \<noteq> 0 then
            w\<lparr>timers := clearTimeout t (timers w),
              hub := (hub w)\<lparr>authTimers := (authTimers (hub w))(c := None)\<rparr>\<rparr>
          else w)"

definition clear_ping_timer :: "world \<Rightarrow> conn_id \<Rightarrow> world" where
  "clear_ping_timer w c =
     (case pingTimers (hub w) c of
        None \<Rightarrow> w
      | Some t \<Rightarrow>
          if t \<noteq> 0 then
            w\<lparr>timers := clearTimeout t (timers w),
              hub := (hub w)\<lparr>pingTimers := (pingTimers (hub w))(c := None)\<rparr>\<rparr>
          else w)"

text \<open>\<^verbatim>\<open>const p = setTimeout(..., 30_000); this.pingTimers.set(conn.id, p)\<close>\<close>

definition arm_ping_timer :: "world \<Rightarrow> conn_id \<Rightarrow> world" where
  "arm_ping_timer w c =
     (case setTimeout w (PingTimeout c) 30000 of
        (w1, h) \<Rightarrow> w1\<lparr>hub := (hub w1)\<lparr>pingTimers := (pingTimers (hub w1))(c \<mapsto> h)\<rparr>\<rparr>)"

section \<open>Connection lifecycle\<close>

text \<open>
  \<^verbatim>\<open>onConnect\<close>. The room extracted from the connection's URL and headers
  (\<^verbatim>\<open>extractRoomId\<close>) is the argument \<open>extracted\<close>.
\<close>

definition onConnect :: "world \<Rightarrow> conn_id \<Rightarrow> string option \<Rightarrow> world \<times> effect list" where
  "onConnect w c extracted =
     (let r = js_coalesce (roomId (hub w))
                (case extracted of Some x \<Rightarrow> JStr x | None \<Rightarrow> JStr ''default'');
          w1 = w\<lparr>hub := (hub w)\<lparr>roomId := Some r\<rparr>\<rparr>
      in case setTimeout w1 (AuthTimeout c) 10000 of
           (w2, t) \<Rightarrow>
             (w2\<lparr>hub := (hub w2)\<lparr>authTimers := (authTimers (hub w2))(c \<mapsto> t)\<rparr>\<rparr>,
              [Send c (JObj [(''type'', JStr ''info''), (''message'', JStr ''please auth'')])]))"

definition onClose :: "world \<Rightarrow> conn_id \<Rightarrow> world" where
  "onClose w c = clear_ping_timer (clear_auth_timer w c) c"

text \<open>The bodies of the two timer closures.\<close>

fun run_callback :: "world \<Rightarrow> callback \<Rightarrow> world \<times> effect list" where
  "run_callback w (AuthTimeout c) =
     (w\<lparr>hub := (hub w)\<lparr>authTimers := (authTimers (hub w))(c := None)\<rparr>\<rparr>,
      if \<not> authed (conns w c)
      then [Send c (error_obj ''unauthorized'' ''auth timeout''), CloseConn c 4401 ''auth required'']
      else [])"
| "run_callback w (PingTimeout c) =
     (if \<not> authed (conns w c) then (w, [])
      else (w\<lparr>hub := (hub w)\<lparr>pingTimers := (pingTimers (hub w))(c := None)\<rparr>\<rparr>,
            [Send c (error_obj ''ping_timeout'' ''ping timeout - connection will be closed''),
             CloseConn c 1000 ''ping timeout'']))"

text \<open>
  The host firing a timer: a handle that is not pending, or not yet due, does nothing;
  a due one leaves the pending list and its closure runs.
\<close>

definition fire :: "world \<Rightarrow> nat \<Rightarrow> world \<times> effect list" where
  "fire w h =
     (case find (\<lambda>e. fst e = h) (timers w) of
        None \<Rightarrow> (w, [])
      | Some (h', due, cb) \<Rightarrow>
          if clock w < due then (w, [])
          else run_callback (w\<lparr>timers := clearTimeout h (timers w)\<rparr>) cb)"

section \<open>Client frames\<close>

definition typing_payload :: "world \<Rightarrow> conn_id \<Rightarrow> json \<Rightarrow> json" where
  "typing_payload w c msg =
     JObj ([(''type'', JStr ''typing''),
            (''userId'', js_coalesce (userId (conns w c)) (JStr ''unknown'')),
            (''isTyping'', JBool (truthy (get_prop msg ''isTyping'')))]
           @ (case roomId (hub w) of None \<Rightarrow> [] | Some r \<Rightarrow> [(''roomId'', r)])
           @ [(''timestamp'', JNum (real (clock w))),
              (''before'', lastMessage (hub w))])"

text \<open>
  \<^verbatim>\<open>onMessage\<close> is an \<^verbatim>\<open>async\<close> function with one suspension point, the
  \<^verbatim>\<open>await this.checkParticipant(roomId, token)\<close> of an \<open>auth\<close> frame. While the
  handler is suspended the hub handles other events: timers fire, frames and requests
  arrive. The handler is therefore two functions. \<open>onMessage_begin\<close> is the code up
  to the suspension: it either finishes, with a world and effects, or reaches the
  \<^verbatim>\<open>await\<close>, having changed nothing and holding the frame, the resolved room and the
  token. \<open>onMessage_resume\<close> is the code after the \<^verbatim>\<open>await\<close>, run with the
  participant check's result on the world as it is when the answer arrives.

  The frame is the outcome of \<^verbatim>\<open>JSON.parse(String(raw))\<close>, \<open>None\<close> when it throws.
\<close>

definition onMessage_begin ::
  "env \<Rightarrow> world \<Rightarrow> conn_id \<Rightarrow> json option \<Rightarrow> (world \<times> effect list) + (json \<times> json \<times> json)" where
  "onMessage_begin e w c raw =
     (case raw of
        None \<Rightarrow> Inl (w, [sendError c ''bad_json'' ''malformed json''])
      | Some msg \<Rightarrow>
          if \<not> truthy (get_prop msg ''type'') then
            Inl (w, [sendError c ''bad_payload'' ''missing type''])
          else if get_prop msg ''type'' = Some (JStr ''auth'') then
            (case get_prop msg ''token'' of
               None \<Rightarrow> Inl (w, [sendError c ''bad_payload'' ''token required''])
             | Some token \<Rightarrow>
                 if \<not> truthy_val token then
                   Inl (w, [sendError c ''bad_payload'' ''token required''])
                 else
                   (case js_or (get_prop msg ''roomId'') (roomId (hub w)) of
                      None \<Rightarrow>
                        Inl (w, [sendError c ''bad_payload'' ''roomId required'',
                                 CloseConn c 4401 ''roomId required''])
                    | Some room \<Rightarrow>
                        if \<not> truthy_val room then
                          Inl (w, [sendError c ''bad_payload'' ''roomId required'',
                                   CloseConn c 4401 ''roomId required''])
                        else Inr (msg, room, token)))
          else if \<not> authed (conns w c) then
            Inl (w, [sendError c ''unauthorized'' ''auth first''])
          else if get_prop msg ''type'' = Some (JStr ''ping'') then
            (let w1 = clear_ping_timer w c;
                 w2 = arm_ping_timer w1 c
             in Inl (w2, [Send c (JObj [(''type'', JStr ''pong''),
                                        (''t'', js_coalesce (get_prop msg ''t'') (JNum (real (clock w))))])]))
          else if get_prop msg ''type'' = Some (JStr ''typing'') then
            Inl (w, broadcast w (typing_payload w c msg) (Some [c]))
          else
            Inl (w, [sendError c ''unknown_type''
                       (''unknown: '' @ (case get_prop msg ''type'' of None \<Rightarrow> [] | Some ty \<Rightarrow> to_text e ty))]))"

definition onMessage_resume ::
  "world \<Rightarrow> conn_id \<Rightarrow> json \<Rightarrow> json \<Rightarrow> auth_result \<Rightarrow> world \<times> effect list" where
  "onMessage_resume w c msg room result =
     (if \<not> success result then
        (w, [sendError c ''unauthorized'' ''not a participant'',
             CloseConn c 4401 ''unauthorized''])
      else
        (let w1 = w\<lparr>hub := (hub w)\<lparr>roomId := Some room\<rparr>,
                     conns := (conns w)
                       (c := (conns w c)
                          \<lparr>authed := True,
                           userId := js_or (result_userId result) (get_prop msg ''userId'')\<rparr>)\<rparr>;
             w2 = clear_auth_timer w1 c;
             w3 = arm_ping_timer w2 c
         in (w3, [Send c (JObj [(''type'', JStr ''auth:ok'')])])))"

text \<open>
  \<open>onMessage\<close> is the handler run without interruption: the case in which the
  participant check answers before the hub handles any other event. The event
  \<open>Message\<close> of a run below is this case; a run with something between the frame and
  the answer is written with \<open>onMessage_begin\<close> and \<open>onMessage_resume\<close>.
\<close>

definition onMessage :: "env \<Rightarrow> world \<Rightarrow> conn_id \<Rightarrow> json option \<Rightarrow> world \<times> effect list" where
  "onMessage e w c raw =
     (case onMessage_begin e w c raw of
        Inl done \<Rightarrow> done
      | Inr (msg, room, token) \<Rightarrow> onMessage_resume w c msg room (checkParticipant e room token))"

section \<open>The trigger endpoint\<close>

text \<open>
  The request as \<^verbatim>\<open>onRequest\<close> reads it: path, method, the \<^verbatim>\<open>authorization\<close> header
  and the body \<^verbatim>\<open>request.json()\<close> yields (\<open>None\<close> when it rejects), with the fields of
  its declared type.
\<close>

record trigger_body =
  body_roomId :: "string option"
  body_message :: "json option"
  excludeConnectionIds :: "conn_id list option"

record request =
  pathname :: string
  http_method :: string
  authorization :: "string option"
  body :: "trigger_body option"

datatype response_body = Text string | Json json

record response =
  status :: nat
  content :: response_body

text \<open>\<^verbatim>\<open>request.headers.get("authorization") || ""\<close>\<close>

definition auth_header :: "request \<Rightarrow> string" where
  "auth_header rq = (case authorization rq of None \<Rightarrow> [] | Some a \<Rightarrow> a)"

definition json_failure :: "string \<Rightarrow> response" where
  "json_failure msg =
     \<lparr>status = 400, content = Json (JObj [(''success'', JBool False), (''error'', JStr msg)])\<rparr>"

text \<open>\<^verbatim>\<open>{ ...body.message, before: this.lastMessage }\<close>: the properties of the message, then
  \<^verbatim>\<open>before\<close>, which replaces in place a property of that name the message had.\<close>

definition with_before :: "json \<Rightarrow> json \<Rightarrow> json" where
  "with_before old m = JObj (AList.update ''before'' old (spread m))"

definition onRequest :: "env \<Rightarrow> world \<Rightarrow> request \<Rightarrow> world \<times> effect list \<times> response" where
  "onRequest e w rq =
     (if pathname rq = ''/broadcast'' \<and> http_method rq = ''POST'' then
        (if auth_header rq \<noteq> ''Bearer '' @ WEBHOOK_TOKEN e then
           (w, [], \<lparr>status = 401, content = Text ''Unauthorized''\<rparr>)
         else
           (case body rq of
              None \<Rightarrow> (w, [], json_failure ''roomId and message required'')
            | Some b \<Rightarrow>
                (case (body_roomId b, body_message b) of
                   (Some rid, Some m) \<Rightarrow>
                     if rid = [] \<or> \<not> truthy_val m then
                       (w, [], json_failure ''roomId and message required'')
                     else
                       (let w1 = (if \<not> truthy (roomId (hub w))
                                  then w\<lparr>hub := (hub w)\<lparr>roomId := Some (JStr rid)\<rparr>\<rparr>
                                  else w)
                        in if Some (JStr rid) \<noteq> roomId (hub w1) then
                             (w1, [], json_failure ''wrong room instance'')
                           else
                             (let broadcastMessage = with_before (lastMessage (hub w1)) m;
                                  w2 = w1\<lparr>hub := (hub w1)\<lparr>lastMessage := m\<rparr>\<rparr>
                              in (w2, broadcast w2 broadcastMessage (excludeConnectionIds b),
                                  \<lparr>status = 200, content = Json (JObj [(''success'', JBool True)])\<rparr>)))
                 | _ \<Rightarrow> (w, [], json_failure ''roomId and message required''))))
      else if pathname rq = ''/last-message'' \<and> http_method rq = ''GET'' then
        (if auth_header rq \<noteq> ''Bearer '' @ WEBHOOK_TOKEN e then
           (w, [], \<lparr>status = 401, content = Text ''Unauthorized''\<rparr>)
         else
           (w, [],
            \<lparr>status = 200,
             content = Json (JObj ([(''success'', JBool True), (''lastMessage'', lastMessage (hub w))]
                        @ (case roomId (hub w) of None \<Rightarrow> [] | Some r \<Rightarrow> [(''roomId'', r)])))\<rparr>))
      else (w, [], \<lparr>status = 404, content = Text ''Not found''\<rparr>))"

section \<open>Events as the host delivers them\<close>

text \<open>
  The hub handles one event at a time: a connection opening (the host creates the
  connection object and lists it, then calls \<^verbatim>\<open>onConnect\<close>), a client frame
  handled without interruption (\<open>onMessage\<close>), a connection closing (the host unlists
  it and calls \<^verbatim>\<open>onClose\<close>), a timer firing, an HTTP request, or time passing.
\<close>

datatype event =
    Connect conn_id "string option"
  | Message conn_id "json option"
  | Close conn_id
  | Fire nat
  | Request request
  | Advance nat

definition host_connect :: "world \<Rightarrow> conn_id \<Rightarrow> world" where
  "host_connect w c =
     w\<lparr>conns := (conns w)(c := \<lparr>authed = False, userId = None\<rparr>), live := live w @ [c]\<rparr>"

fun step :: "env \<Rightarrow> world \<Rightarrow> event \<Rightarrow> world \<times> effect list" where
  "step e w (Connect c extracted) = onConnect (host_connect w c) c extracted"
| "step e w (Message c raw) = onMessage e w c raw"
| "step e w (Close c) = (onClose (w\<lparr>live := removeAll c (live w)\<rparr>) c, [])"
| "step e w (Fire h) = fire w h"
| "step e w (Request rq) = (case onRequest e w rq of (w1, out, resp) \<Rightarrow> (w1, out))"
| "step e w (Advance d) = (w\<lparr>clock := clock w + d\<rparr>, [])"

fun run :: "env \<Rightarrow> world \<Rightarrow> event list \<Rightarrow> world \<times> effect list" where
  "run e w [] = (w, [])"
| "run e w (ev # evs) =
     (case step e w ev of
        (w1, out1) \<Rightarrow> (case run e w1 evs of (w2, out2) \<Rightarrow> (w2, out1 @ out2)))"

text \<open>A freshly constructed \<^verbatim>\<open>Chat\<close>: no room, empty timer maps, \<^verbatim>\<open>lastMessage = null\<close>.\<close>

definition init_world :: world where
  "init_world =
     \<lparr>hub = \<lparr>roomId = None, authTimers = Map.empty, pingTimers = Map.empty, lastMessage = JNull\<rparr>,
      conns = (\<lambda>c. \<lparr>authed = False, userId = None\<rparr>),
      live = [],
      clock = 0,
      timer_seq = 0,
      timers = []\<rparr>"

text \<open>The pending timers of one kind that belong to a connection.\<close>

definition pending_for :: "world \<Rightarrow> callback \<Rightarrow> (nat \<times> nat \<times> callback) list" where
  "pending_for w cb = filter (\<lambda>e. snd (snd e) = cb) (timers w)"

definition pending :: "world \<Rightarrow> nat \<Rightarrow> bool" where
  "pending w h = (h \<in> fst ` set (timers w))"

subsection \<open>Sample surroundings for concrete runs\<close>

text \<open>A backend that accepts every token and names the user \<open>u1\<close>, with secret \<open>s3cret\<close>
  and the template-literal rendering above.\<close>

definition accepting_env :: env where
  "accepting_env =
     \<lparr>backend = (\<lambda>room token. FetchResponse 200 (Some (JObj [(''userId'', JStr ''u1'')]))),
      WEBHOOK_TOKEN = ''s3cret'',
      to_text = template_text\<rparr>"

definition auth_frame :: "string \<Rightarrow> string \<Rightarrow> json" where
  "auth_frame token room =
     JObj [(''type'', JStr ''auth''), (''token'', JStr token), (''roomId'', JStr room)]"

definition hinted_auth_frame :: json where
  "hinted_auth_frame =
     JObj [(''type'', JStr ''auth''), (''token'', JStr ''tok''), (''roomId'', JStr ''r1''),
           (''userId'', JStr ''hint'')]"

definition typing_frame :: json where
  "typing_frame = JObj [(''type'', JStr ''typing''), (''isTyping'', JBool True)]"

text \<open>The world right after connection \<open>a\<close> opened on \<open>/rooms/r1\<close>.\<close>

definition opened_world :: world where
  "opened_world = fst (step accepting_env init_world (Connect ''a'' (Some ''r1'')))"

text \<open>Connection \<open>a\<close> authenticated, connection \<open>b\<close> open and not authenticated.\<close>

definition mixed_world :: world where
  "mixed_world =
     fst (run accepting_env init_world
       [Connect ''a'' (Some ''r1''), Message ''a'' (Some (auth_frame ''tok'' ''r1'')),
        Connect ''b'' (Some ''r1'')])"

definition sample_body :: trigger_body where
  "sample_body =
     \<lparr>body_roomId = Some ''r1'', body_message = Some (JObj [(''id'', JStr ''m1'')]),
      excludeConnectionIds = Some [''a'']\<rparr>"

definition sample_trigger :: request where
  "sample_trigger =
     \<lparr>pathname = ''/broadcast'', http_method = ''POST'',
      authorization = Some ''Bearer s3cret'', body = Some sample_body\<rparr>"

text \<open>The same trigger with the number 42 as its message.\<close>

definition number_trigger :: request where
  "number_trigger =
     \<lparr>pathname = ''/broadcast'', http_method = ''POST'', authorization = Some ''Bearer s3cret'',
      body = Some \<lparr>body_roomId = Some ''r1'', body_message = Some (JNum 42),
                   excludeConnectionIds = Some [''a'']\<rparr>\<rparr>"

definition ping_frame :: json where
  "ping_frame = JObj [(''type'', JStr ''ping''), (''t'', JNum 7)]"

text \<open>The exclusion set of a trigger body: the listed handles, none when the list is absent.\<close>

definition excluded :: "trigger_body \<Rightarrow> conn_id set" where
  "excluded b = (case excludeConnectionIds b of None \<Rightarrow> {} | Some ex \<Rightarrow> set ex)"

section \<open>A connection waiting for its admission deadline\<close>

text \<open>
  The events that leave connection \<open>c\<close> waiting on its admission timer \<open>h\<close>:
  anything but an \<open>auth\<close> frame from \<open>c\<close>, the closing of \<open>c\<close>, another
  connection opening under the same handle, and the firing of \<open>h\<close> itself.
\<close>

fun quiet :: "conn_id \<Rightarrow> nat \<Rightarrow> event \<Rightarrow> bool" where
  "quiet c h (Connect d extracted) = (d \<noteq> c)"
| "quiet c h (Message d raw) =
     (d \<noteq> c \<or> (case raw of None \<Rightarrow> True
                         | Some msg \<Rightarrow> get_prop msg ''type'' \<noteq> Some (JStr ''auth'')))"
| "quiet c h (Close d) = (d \<noteq> c)"
| "quiet c h (Fire k) = (k \<noteq> h)"
| "quiet c h (Request rq) = True"
| "quiet c h (Advance n) = True"

text \<open>
  What holds of the world while \<open>c\<close> waits: it is not authenticated; its admission
  timer \<open>h\<close> is pending with due time \<open>due\<close>, and is the only pending timer with
  that handle or that closure; no other connection's map entry holds \<open>h\<close>; and
  \<open>h\<close> has been issued.
\<close>

definition awaiting :: "conn_id \<Rightarrow> nat \<Rightarrow> nat \<Rightarrow> world \<Rightarrow> bool" where
  "awaiting c h due w \<longleftrightarrow>
     \<not> authed (conns w c) \<and>
     (h, due, AuthTimeout c) \<in> set (timers w) \<and>
     (\<forall>t \<in> set (timers w).
        fst t = h \<or> snd (snd t) = AuthTimeout c \<longrightarrow> t = (h, due, AuthTimeout c)) \<and>
     (\<forall>d. authTimers (hub w) d = Some h \<longrightarrow> d = c) \<and>
     (\<forall>d. pingTimers (hub w) d \<noteq> Some h) \<and>
     h \<le> timer_seq w"

text \<open>Output that neither closes \<open>c\<close> nor tells it of an admission timeout.\<close>

definition calm :: "conn_id \<Rightarrow> effect list \<Rightarrow> bool" where
  "calm c out \<longleftrightarrow>
     (\<forall>code reason. CloseConn c code reason \<notin> set out) \<and>
     Send c (error_obj ''unauthorized'' ''auth timeout'') \<notin> set out"

text \<open>Handles in use are handles the host has issued.\<close>

definition issued :: "world \<Rightarrow> bool" where
  "issued w \<longleftrightarrow>
     (\<forall>t \<in> set (timers w). fst t \<le> timer_seq w) \<and>
     (\<forall>d t. authTimers (hub w) d = Some t \<longrightarrow> t \<le> timer_seq w) \<and>
     (\<forall>d t. pingTimers (hub w) d = Some t \<longrightarrow> t \<le> timer_seq w)"

section \<open>Evaluation rules for concrete runs\<close>

text \<open>The uninterrupted handler, written out in one piece.\<close>

lemma onMessage_atomic:
  "onMessage e w c raw =
     (case raw of
        None \<Rightarrow> (w, [sendError c ''bad_json'' ''malformed json''])
      | Some msg \<Rightarrow>
          if \<not> truthy (get_prop msg ''type'') then
            (w, [sendError c ''bad_payload'' ''missing type''])
          else if get_prop msg ''type'' = Some (JStr ''auth'') then
            (case get_prop msg ''token'' of
               None \<Rightarrow> (w, [sendError c ''bad_payload'' ''token required''])
             | Some token \<Rightarrow>
                 if \<not> truthy_val token then
                   (w, [sendError c ''bad_payload'' ''token required''])
                 else
                   (case js_or (get_prop msg ''roomId'') (roomId (hub w)) of
                      None \<Rightarrow>
                        (w, [sendError c ''bad_payload'' ''roomId required'',
                             CloseConn c 4401 ''roomId required''])
                    | Some room \<Rightarrow>
                        if \<not> truthy_val room then
                          (w, [sendError c ''bad_payload'' ''roomId required'',
                               CloseConn c 4401 ''roomId required''])
                        else
                          (let result = checkParticipant e room token
                           in if \<not> success result then
                                (w, [sendError c ''unauthorized'' ''not a participant'',
                                     CloseConn c 4401 ''unauthorized''])
                              else
                                (let w1 = w\<lparr>hub := (hub w)\<lparr>roomId := Some room\<rparr>,
                                             conns := (conns w)
                                               (c := (conns w c)
                                                  \<lparr>authed := True,
                                                   userId := js_or (result_userId result)
                                                               (get_prop msg ''userId'')\<rparr>)\<rparr>;
                                     w2 = clear_auth_timer w1 c;
                                     w3 = arm_ping_timer w2 c
                                 in (w3, [Send c (JObj [(''type'', JStr ''auth:ok'')])])))))
          else if \<not> authed (conns w c) then
            (w, [sendError c ''unauthorized'' ''auth first''])
          else if get_prop msg ''type'' = Some (JStr ''ping'') then
            (let w1 = clear_ping_timer w c;
                 w2 = arm_ping_timer w1 c
             in (w2, [Send c (JObj [(''type'', JStr ''pong''),
                                    (''t'', js_coalesce (get_prop msg ''t'') (JNum (real (clock w))))])]))
          else if get_prop msg ''type'' = Some (JStr ''typing'') then
            (w, broadcast w (typing_payload w c msg) (Some [c]))
          else
            (w, [sendError c ''unknown_type''
                   (''unknown: '' @ (case get_prop msg ''type'' of None \<Rightarrow> [] | Some ty \<Rightarrow> to_text e ty))]))"
  by (simp add: onMessage_def onMessage_begin_def onMessage_resume_def Let_def
      split: option.splits)

lemmas run_defs =
  accepting_env_def init_world_def opened_world_def auth_frame_def typing_frame_def
  onConnect_def host_connect_def onMessage_atomic onClose_def fire_def setTimeout_def js_or_def
  checkParticipant_def clear_auth_timer_def clear_ping_timer_def arm_ping_timer_def
  clearTimeout_def sendError_def error_obj_def broadcast_def typing_payload_def Let_def
  mixed_world_def sample_body_def sample_trigger_def with_before_def

section \<open>The sample worlds, evaluated once\<close>

lemma opened_facts:
  "timers opened_world = [(1, 10000, AuthTimeout ''a'')]"
  "authTimers (hub opened_world) = [''a'' \<mapsto> 1]"
  "pingTimers (hub opened_world) = Map.empty"
  "roomId (hub opened_world) = Some (JStr ''r1'')"
  "clock opened_world = 0" "timer_seq opened_world = 1"
  "authed (conns opened_world c) = False"
  by (simp_all add: run_defs)

lemma mixed_facts:
  "live mixed_world = [''a'', ''b'']" "roomId (hub mixed_world) = Some (JStr ''r1'')"
  "lastMessage (hub mixed_world) = JNull"
  by (simp_all add: run_defs)

lemma mixed_more:
  "authed (conns mixed_world ''a'')" "pingTimers (hub mixed_world) ''a'' = Some 2"
  "timers mixed_world = [(2, 30000, PingTimeout ''a''), (3, 10000, AuthTimeout ''b'')]"
  "timer_seq mixed_world = 3" "clock mixed_world = 0"
  by (simp_all add: run_defs)

section \<open>What the handler does after the participant check\<close>

text \<open>
  On a successful check the code after the \<^verbatim>\<open>await\<close> has these effects, whatever
  the world has become in the meantime.
\<close>

lemma resume_success:
  assumes "success res" and "authTimers (hub w) c \<noteq> Some 0"
    and "onMessage_resume w c msg room res = (w', out)"
  shows "out = [Send c (JObj [(''type'', JStr ''auth:ok'')])] \<and>
         authed (conns w' c) \<and>
         userId (conns w' c) =
           (if truthy (result_userId res) then result_userId res else get_prop msg ''userId'') \<and>
         authTimers (hub w') c = None \<and>
         timers w' = filter (\<lambda>t. Some (fst t) \<noteq> authTimers (hub w) c) (timers w)
                       @ [(Suc (timer_seq w), clock w + 30000, PingTimeout c)] \<and>
         pingTimers (hub w') c = Some (Suc (timer_seq w))"
  using assms
  by (auto simp: onMessage_resume_def Let_def js_or_def clear_auth_timer_def arm_ping_timer_def
      setTimeout_def clearTimeout_def split: option.splits if_splits)

text \<open>An \<open>auth\<close> frame that reaches the check, handled without interruption.\<close>

lemma uninterrupted_admission:
  assumes "get_prop m ''type'' = Some (JStr ''auth'')"
    and "get_prop m ''token'' = Some token" and "truthy_val token"
    and "js_or (get_prop m ''roomId'') (roomId (hub w)) = Some room" and "truthy_val room"
  shows "onMessage e w c (Some m) = onMessage_resume w c m room (checkParticipant e room token)"
  using assms by (simp add: onMessage_def onMessage_begin_def)

text \<open>A ping of an authenticated connection clears the stored idle timer and arms a new one.\<close>

lemma ping_rearms:
  assumes "authed (conns w c)" and "get_prop m ''type'' = Some (JStr ''ping'')"
    and "pingTimers (hub w) c \<noteq> Some 0"
  shows "timers (fst (onMessage e w c (Some m)))
           = filter (\<lambda>t. Some (fst t) \<noteq> pingTimers (hub w) c) (timers w)
               @ [(Suc (timer_seq w), clock w + 30000, PingTimeout c)] \<and>
         pingTimers (hub (fst (onMessage e w c (Some m)))) c = Some (Suc (timer_seq w))"
  using assms
  by (auto simp: onMessage_atomic Let_def clear_ping_timer_def arm_ping_timer_def
      setTimeout_def clearTimeout_def split: option.splits if_splits)

section \<open>What a valid trigger does\<close>

lemma broadcast_excluded:
  "broadcast w p (excludeConnectionIds b) = map (\<lambda>c. Send c p) (filter (\<lambda>c. c \<notin> excluded b) (live w))"
  by (simp add: broadcast_def excluded_def split: option.splits)

lemma onRequest_fanout:
  assumes "pathname rq = ''/broadcast''" and "http_method rq = ''POST''"
    and "authorization rq = Some (''Bearer '' @ WEBHOOK_TOKEN e)"
    and "body rq = Some b" and "body_roomId b = Some rid" and "rid \<noteq> []"
    and "body_message b = Some m" and "truthy_val m"
    and "\<not> truthy (roomId (hub w)) \<or> roomId (hub w) = Some (JStr rid)"
  shows "onRequest e w rq =
     (w\<lparr>hub := (hub w)\<lparr>roomId := Some (JStr rid), lastMessage := m\<rparr>\<rparr>,
      map (\<lambda>c. Send c (with_before (lastMessage (hub w)) m))
        (filter (\<lambda>c. c \<notin> excluded b) (live w)),
      \<lparr>status = 200, content = Json (JObj [(''success'', JBool True)])\<rparr>)"
proof -
  from assms(9) have same: "roomId (hub w) = Some (JStr rid) \<Longrightarrow>
      w\<lparr>hub := (hub w)\<lparr>lastMessage := m\<rparr>\<rparr> = w\<lparr>hub := (hub w)\<lparr>roomId := Some (JStr rid), lastMessage := m\<rparr>\<rparr>"
    by (cases w, cases "hub w") simp
  show ?thesis
  proof (cases "truthy (roomId (hub w))")
    case True
    with assms(9) have r: "roomId (hub w) = Some (JStr rid)" by simp
    show ?thesis
      using assms(1-8) True r same
      by (simp add: onRequest_def auth_header_def Let_def broadcast_excluded)
  next
    case False
    then show ?thesis
      using assms(1-8)
      by (simp add: onRequest_def auth_header_def Let_def broadcast_excluded)
  qed
qed

lemma with_before_props:
  "get_prop (with_before old m) ''before'' = Some old"
  "k \<noteq> ''before'' \<Longrightarrow> get_prop (with_before old m) k = map_of (spread m) k"
  by (simp_all add: with_before_def update_conv')

section \<open>Room identity\<close>

text \<open>
  A trigger naming another room than the bound one is refused and changes nothing.
\<close>

lemma trigger_conflict_rejected:
  assumes "pathname rq = ''/broadcast''" and "http_method rq = ''POST''"
    and "authorization rq = Some (''Bearer '' @ WEBHOOK_TOKEN e)"
    and "body rq = Some b" and "body_roomId b = Some rid"
    and "truthy (roomId (hub w))" and "roomId (hub w) \<noteq> Some (JStr rid)"
  shows "fst (onRequest e w rq) = w \<and> fst (snd (onRequest e w rq)) = []
         \<and> status (snd (snd (onRequest e w rq))) = 400"
  using assms
  by (auto simp: onRequest_def auth_header_def json_failure_def Let_def split: option.splits)

text \<open>
  C1 (the admission half fails on the code). Claim: once the room identifier is bound, an
  admission request whose payload carries a different \<open>roomId\<close> is rejected and leaves
  the binding unchanged. Run: connection \<open>a\<close> opens on \<open>/rooms/r1\<close>, which binds
  \<open>r1\<close>; it then sends \<open>auth\<close> with \<open>roomId = r2\<close> and a token the backend accepts
  for \<open>r2\<close>. The hub answers \<open>auth:ok\<close> and is bound to \<open>r2\<close> afterwards.
\<close>

theorem C1_auth_rebinds_room:
  "roomId (hub (fst (run accepting_env init_world [Connect ''a'' (Some ''r1'')]))) = Some (JStr ''r1'') \<and>
   roomId (hub (fst (run accepting_env init_world
      [Connect ''a'' (Some ''r1''), Message ''a'' (Some (auth_frame ''tok'' ''r2''))]))) = Some (JStr ''r2'') \<and>
   snd (run accepting_env init_world
      [Connect ''a'' (Some ''r1''), Message ''a'' (Some (auth_frame ''tok'' ''r2''))])
     = [Send ''a'' (JObj [(''type'', JStr ''info''), (''message'', JStr ''please auth'')]),
        Send ''a'' (JObj [(''type'', JStr ''auth:ok'')])]"
  by (simp add: run_defs)

section \<open>Admission requests without a token\<close>

text \<open>
  An \<open>auth\<close> frame whose token is absent, empty or otherwise falsy draws the
  \<open>bad_payload\<close> / \<open>token required\<close> error and nothing else.
\<close>

lemma missing_token_error_only:
  assumes "get_prop msg ''type'' = Some (JStr ''auth'')"
    and "\<not> truthy (get_prop msg ''token'')"
  shows "onMessage e w c (Some msg) = (w, [sendError c ''bad_payload'' ''token required''])"
  using assms by (auto simp: onMessage_atomic split: option.splits)

text \<open>
  C4 (fails on the code). Claim: an admission request that carries no non-empty token
  fails with a missing-field error and the connection is closed with the admission-failure
  code. Run: connection \<open>a\<close> has just opened and sends \<open>auth\<close> without a token, or
  with the empty token. The hub sends the \<open>bad_payload\<close> error and returns: no close of
  any code follows, and the world is as before. The other failures of the same branch do
  close with 4401, as the same frame with a token shows on a hub that resolves no room.
\<close>

theorem C4_missing_token_not_closed:
  "onMessage accepting_env opened_world ''a'' (Some (JObj [(''type'', JStr ''auth'')]))
     = (opened_world, [sendError ''a'' ''bad_payload'' ''token required'']) \<and>
   onMessage accepting_env opened_world ''a''
       (Some (JObj [(''type'', JStr ''auth''), (''token'', JStr [])]))
     = (opened_world, [sendError ''a'' ''bad_payload'' ''token required'']) \<and>
   (\<forall>code reason. CloseConn ''a'' code reason \<notin>
      set (snd (onMessage accepting_env opened_world ''a'' (Some (JObj [(''type'', JStr ''auth'')]))))) \<and>
   snd (onMessage accepting_env init_world ''a''
          (Some (JObj [(''type'', JStr ''auth''), (''token'', JStr ''tok'')])))
     = [sendError ''a'' ''bad_payload'' ''roomId required'', CloseConn ''a'' 4401 ''roomId required'']"
  by (simp add: onMessage_atomic sendError_def js_or_def init_world_def)

section \<open>A successful admission\<close>




section \<open>Frames before authentication\<close>

text \<open>
  C8. For every connection that has not authenticated, a frame carrying a type tag other
  than \<open>auth\<close> is not acted upon: the only effect is the \<open>unauthorized\<close> error to the
  sender, and the world is the same afterwards, so the connection still awaits
  authentication and its admission timer is still pending.
\<close>

theorem C8_preauth_rejected:
  assumes "\<not> authed (conns w c)"
    and "truthy (get_prop msg ''type'')"
    and "get_prop msg ''type'' \<noteq> Some (JStr ''auth'')"
  shows "onMessage e w c (Some msg) = (w, [sendError c ''unauthorized'' ''auth first''])"
  using assms by (simp add: onMessage_atomic)

theorem C8_witness:
  "\<not> authed (conns opened_world ''a'') \<and>
   truthy (get_prop typing_frame ''type'') \<and>
   get_prop typing_frame ''type'' \<noteq> Some (JStr ''auth'') \<and>
   pending opened_world 1 \<and>
   onMessage accepting_env opened_world ''a'' (Some typing_frame)
     = (opened_world, [sendError ''a'' ''unauthorized'' ''auth first''])"
  using C8_preauth_rejected [of opened_world "''a''" typing_frame accepting_env]
  by (simp add: run_defs pending_def)

section \<open>The trigger endpoint\<close>

text \<open>
  C9. A \<open>POST /broadcast\<close> whose \<open>authorization\<close> header is missing or is not
  \<open>Bearer\<close> followed by the shared secret is answered with status 401, delivers nothing
  and leaves the world as it was: same cache, same room binding.
\<close>

theorem C9_bad_secret_rejected:
  assumes "pathname rq = ''/broadcast''" and "http_method rq = ''POST''"
    and "authorization rq \<noteq> Some (''Bearer '' @ WEBHOOK_TOKEN e)"
  shows "onRequest e w rq = (w, [], \<lparr>status = 401, content = Text ''Unauthorized''\<rparr>)"
  using assms by (auto simp: onRequest_def auth_header_def split: option.splits)

theorem C9_witness:
  "onRequest accepting_env opened_world
     \<lparr>pathname = ''/broadcast'', http_method = ''POST'', authorization = Some ''Bearer guess'',
      body = Some \<lparr>body_roomId = Some ''r1'', body_message = Some (JObj [(''id'', JStr ''m1'')]),
                   excludeConnectionIds = None\<rparr>\<rparr>
   = (opened_world, [], \<lparr>status = 401, content = Text ''Unauthorized''\<rparr>)"
  by (rule C9_bad_secret_rejected) (simp_all add: accepting_env_def)

text \<open>
  C6 as stated fails for a message that is not an object. A trigger with the number 42 as
  its message passes validation; what connection \<open>b\<close> receives is the object with the
  single property \<open>before\<close>, in which nothing of the message is left, while the cache
  becomes 42.
\<close>

theorem C6_counterexample:
  "fst (snd (onRequest accepting_env mixed_world number_trigger))
     = [Send ''b'' (JObj [(''before'', JNull)])] \<and>
   lastMessage (hub (fst (onRequest accepting_env mixed_world number_trigger))) = JNum 42 \<and>
   status (snd (snd (onRequest accepting_env mixed_world number_trigger))) = 200"
  by (simp add: onRequest_def auth_header_def number_trigger_def accepting_env_def mixed_facts
      broadcast_def with_before_def AList.update.simps Let_def)

text \<open>
  C6 (amended). A \<open>POST /broadcast\<close> with the shared secret, a non-empty \<open>roomId\<close>
  that is the bound room (or binds an unbound hub), an object \<open>m\<close> as message and
  exclusion set \<open>E\<close>: the deliveries are exactly one per listed connection outside
  \<open>E\<close>, each carrying the object \<open>m\<close> with its property \<open>before\<close> set to the
  cache as it was before the call (added last, or replacing in place a \<open>before\<close> of
  \<open>m\<close>'s own), every other property being that of \<open>m\<close>; nothing goes to a
  connection in \<open>E\<close>; afterwards the cache is \<open>m\<close> itself, and the answer has
  status 200.
\<close>

theorem C6_object_fanout:
  assumes "pathname rq = ''/broadcast''" and "http_method rq = ''POST''"
    and "authorization rq = Some (''Bearer '' @ WEBHOOK_TOKEN e)"
    and "body rq = Some b" and "body_roomId b = Some rid" and "rid \<noteq> []"
    and "body_message b = Some (JObj kvs)"
    and "\<not> truthy (roomId (hub w)) \<or> roomId (hub w) = Some (JStr rid)"
    and "onRequest e w rq = (w', out, resp)"
  shows "out = map (\<lambda>c. Send c (JObj (AList.update ''before'' (lastMessage (hub w)) kvs)))
                 (filter (\<lambda>c. c \<notin> excluded b) (live w)) \<and>
         (\<forall>c \<in> set (live w). c \<notin> excluded b \<longrightarrow>
            Send c (JObj (AList.update ''before'' (lastMessage (hub w)) kvs)) \<in> set out) \<and>
         (\<forall>c p. c \<in> excluded b \<longrightarrow> Send c p \<notin> set out) \<and>
         get_prop (JObj (AList.update ''before'' (lastMessage (hub w)) kvs)) ''before''
           = Some (lastMessage (hub w)) \<and>
         (\<forall>k. k \<noteq> ''before'' \<longrightarrow>
            get_prop (JObj (AList.update ''before'' (lastMessage (hub w)) kvs)) k
              = get_prop (JObj kvs) k) \<and>
         lastMessage (hub w') = JObj kvs \<and>
         status resp = 200"
proof -
  have t: "truthy_val (JObj kvs)" by simp
  from onRequest_fanout [OF assms(1-7) t assms(8)] assms(9)
  have w': "w' = w\<lparr>hub := (hub w)\<lparr>roomId := Some (JStr rid), lastMessage := JObj kvs\<rparr>\<rparr>"
    and out: "out = map (\<lambda>c. Send c (with_before (lastMessage (hub w)) (JObj kvs)))
                 (filter (\<lambda>c. c \<notin> excluded b) (live w))"
    and resp: "resp = \<lparr>status = 200, content = Json (JObj [(''success'', JBool True)])\<rparr>"
    by simp_all
  have p: "with_before (lastMessage (hub w)) (JObj kvs)
             = JObj (AList.update ''before'' (lastMessage (hub w)) kvs)"
    by (simp add: with_before_def)
  show ?thesis
    unfolding out p by (auto simp: w' resp update_conv')
qed

theorem C6_witness:
  "onRequest accepting_env mixed_world sample_trigger
     = (fst (onRequest accepting_env mixed_world sample_trigger),
        [Send ''b'' (JObj [(''id'', JStr ''m1''), (''before'', JNull)])],
        \<lparr>status = 200, content = Json (JObj [(''success'', JBool True)])\<rparr>) \<and>
   lastMessage (hub (fst (onRequest accepting_env mixed_world sample_trigger)))
     = JObj [(''id'', JStr ''m1'')] \<and>
   live mixed_world = [''a'', ''b''] \<and> excluded sample_body = {''a''}"
proof -
  obtain w' out resp where r: "onRequest accepting_env mixed_world sample_trigger = (w', out, resp)"
    by (cases "onRequest accepting_env mixed_world sample_trigger") auto
  have "pathname sample_trigger = ''/broadcast''" "http_method sample_trigger = ''POST''"
    "authorization sample_trigger = Some (''Bearer '' @ WEBHOOK_TOKEN accepting_env)"
    "body sample_trigger = Some sample_body" "body_roomId sample_body = Some ''r1''" "''r1'' \<noteq> []"
    "body_message sample_body = Some (JObj [(''id'', JStr ''m1'')])"
    "\<not> truthy (roomId (hub mixed_world)) \<or> roomId (hub mixed_world) = Some (JStr ''r1'')"
    by (simp_all add: sample_trigger_def sample_body_def accepting_env_def mixed_facts)
  from C6_object_fanout [OF this r]
  have "out = map (\<lambda>c. Send c (JObj (AList.update ''before'' (lastMessage (hub mixed_world))
                                       [(''id'', JStr ''m1'')])))
                 (filter (\<lambda>c. c \<notin> excluded sample_body) (live mixed_world))"
    and "lastMessage (hub w') = JObj [(''id'', JStr ''m1'')]" and "status resp = 200"
    by simp_all
  moreover have "excluded sample_body = {''a''}"
    by (simp add: excluded_def sample_body_def)
  moreover have "resp = \<lparr>status = 200, content = Json (JObj [(''success'', JBool True)])\<rparr>"
    using r
    by (simp add: onRequest_def auth_header_def sample_trigger_def sample_body_def
        accepting_env_def mixed_facts Let_def)
  ultimately show ?thesis
    using r by (simp add: mixed_facts)
qed

section \<open>Who receives a fanout\<close>



section \<open>Timers of a connection that authenticates twice\<close>

text \<open>
  C3 (fails on the code). Claim: a connection has at most one active timer of each kind,
  and a second admission request on an authenticated connection never double-arms. Run:
  \<open>a\<close> connects and authenticates, which leaves one pending idle timer (handle 2);
  \<open>a\<close> authenticates again, and now two idle timers are pending for it (handles 2 and
  3), the map remembering only 3. A ping 29 s later re-arms through the map (clears 3, arms
  4), yet timer 2 fires at 30 s and closes the connection that had just pinged.
\<close>

theorem C3_second_auth_double_arms:
  "pending_for (fst (run accepting_env init_world
      [Connect ''a'' (Some ''r1''), Message ''a'' (Some (auth_frame ''tok'' ''r1''))])) (PingTimeout ''a'')
     = [(2, 30000, PingTimeout ''a'')] \<and>
   pending_for (fst (run accepting_env init_world
      [Connect ''a'' (Some ''r1''), Message ''a'' (Some (auth_frame ''tok'' ''r1'')),
       Message ''a'' (Some (auth_frame ''tok'' ''r1''))])) (PingTimeout ''a'')
     = [(2, 30000, PingTimeout ''a''), (3, 30000, PingTimeout ''a'')] \<and>
   snd (run accepting_env init_world
      [Connect ''a'' (Some ''r1''), Message ''a'' (Some (auth_frame ''tok'' ''r1'')),
       Message ''a'' (Some (auth_frame ''tok'' ''r1'')),
       Advance 29000, Message ''a'' (Some (JObj [(''type'', JStr ''ping''), (''t'', JNum 7)])),
       Advance 1000, Fire 2])
     = [Send ''a'' (JObj [(''type'', JStr ''info''), (''message'', JStr ''please auth'')]),
        Send ''a'' (JObj [(''type'', JStr ''auth:ok'')]),
        Send ''a'' (JObj [(''type'', JStr ''auth:ok'')]),
        Send ''a'' (JObj [(''type'', JStr ''pong''), (''t'', JNum 7)]),
        Send ''a'' (error_obj ''ping_timeout'' ''ping timeout - connection will be closed''),
        CloseConn ''a'' 1000 ''ping timeout'']"
proof -
  define W1 :: world where "W1 =
    \<lparr>hub = \<lparr>roomId = Some (JStr ''r1''), authTimers = [''a'' \<mapsto> Suc 0],
            pingTimers = Map.empty, lastMessage = JNull\<rparr>,
     conns = (\<lambda>c. \<lparr>authed = False, userId = None\<rparr>)
               (''a'' := \<lparr>authed = False, userId = None\<rparr>),
     live = [''a''], clock = 0, timer_seq = Suc 0,
     timers = [(Suc 0, 10000, AuthTimeout ''a'')]\<rparr>"
  define W :: "(conn_id \<rightharpoonup> nat) \<Rightarrow> nat \<Rightarrow> nat \<Rightarrow> (nat \<times> nat \<times> callback) list \<Rightarrow> world"
    where "W pt ck sq ts =
    \<lparr>hub = \<lparr>roomId = Some (JStr ''r1''), authTimers = Map.empty,
            pingTimers = pt, lastMessage = JNull\<rparr>,
     conns = (\<lambda>c. \<lparr>authed = False, userId = None\<rparr>)
               (''a'' := \<lparr>authed = True, userId = Some (JStr ''u1'')\<rparr>),
     live = [''a''], clock = ck, timer_seq = sq, timers = ts\<rparr>" for pt ck sq ts
  let ?auth = "Message ''a'' (Some (auth_frame ''tok'' ''r1''))"
  let ?ping = "Message ''a'' (Some (JObj [(''type'', JStr ''ping''), (''t'', JNum 7)]))"
  let ?p2 = "(2, 30000, PingTimeout ''a'')"
  let ?p3 = "(3, 30000, PingTimeout ''a'')"
  let ?p4 = "(4, 59000, PingTimeout ''a'')"
  have n4: "4 = Suc (Suc (Suc (Suc 0)))"
    by simp
  note hs = numeral_2_eq_2 numeral_3_eq_3 n4
  have s1: "step accepting_env init_world (Connect ''a'' (Some ''r1'')) =
      (W1, [Send ''a'' (JObj [(''type'', JStr ''info''), (''message'', JStr ''please auth'')])])"
    unfolding W1_def by (simp add: run_defs)
  have s2: "step accepting_env W1 ?auth =
      (W [''a'' \<mapsto> 2] 0 2 [?p2], [Send ''a'' (JObj [(''type'', JStr ''auth:ok'')])])"
    unfolding W1_def W_def by (simp add: run_defs hs)
  have s3: "step accepting_env (W [''a'' \<mapsto> 2] 0 2 [?p2]) ?auth =
      (W [''a'' \<mapsto> 3] 0 3 [?p2, ?p3], [Send ''a'' (JObj [(''type'', JStr ''auth:ok'')])])"
    unfolding W_def by (simp add: run_defs hs)
  have s4: "step accepting_env (W [''a'' \<mapsto> 3] 0 3 [?p2, ?p3]) (Advance 29000) =
      (W [''a'' \<mapsto> 3] 29000 3 [?p2, ?p3], [])"
    unfolding W_def by simp
  have s5: "step accepting_env (W [''a'' \<mapsto> 3] 29000 3 [?p2, ?p3]) ?ping =
      (W [''a'' \<mapsto> 4] 29000 4 [?p2, ?p4],
       [Send ''a'' (JObj [(''type'', JStr ''pong''), (''t'', JNum 7)])])"
    unfolding W_def by (simp add: run_defs hs)
  have s6: "step accepting_env (W [''a'' \<mapsto> 4] 29000 4 [?p2, ?p4]) (Advance 1000) =
      (W [''a'' \<mapsto> 4] 30000 4 [?p2, ?p4], [])"
    unfolding W_def by simp
  have s7: "step accepting_env (W [''a'' \<mapsto> 4] 30000 4 [?p2, ?p4]) (Fire 2) =
      (W Map.empty 30000 4 [?p4],
       [Send ''a'' (error_obj ''ping_timeout'' ''ping timeout - connection will be closed''),
        CloseConn ''a'' 1000 ''ping timeout''])"
    unfolding W_def by (simp add: run_defs hs)
  have r2: "fst (run accepting_env init_world [Connect ''a'' (Some ''r1''), ?auth])
              = W [''a'' \<mapsto> 2] 0 2 [?p2]"
    by (simp del: step.simps add: s1 s2)
  have r3: "fst (run accepting_env init_world [Connect ''a'' (Some ''r1''), ?auth, ?auth])
              = W [''a'' \<mapsto> 3] 0 3 [?p2, ?p3]"
    by (simp del: step.simps add: s1 s2 s3)
  have r7: "snd (run accepting_env init_world
               [Connect ''a'' (Some ''r1''), ?auth, ?auth, Advance 29000, ?ping, Advance 1000, Fire 2])
     = [Send ''a'' (JObj [(''type'', JStr ''info''), (''message'', JStr ''please auth'')]),
        Send ''a'' (JObj [(''type'', JStr ''auth:ok'')]),
        Send ''a'' (JObj [(''type'', JStr ''auth:ok'')]),
        Send ''a'' (JObj [(''type'', JStr ''pong''), (''t'', JNum 7)]),
        Send ''a'' (error_obj ''ping_timeout'' ''ping timeout - connection will be closed''),
        CloseConn ''a'' 1000 ''ping timeout'']"
    by (simp del: step.simps add: s1 s2 s3 s4 s5 s6 s7)
  have p2: "pending_for (W [''a'' \<mapsto> 2] 0 2 [?p2]) (PingTimeout ''a'') = [?p2]"
    and p3: "pending_for (W [''a'' \<mapsto> 3] 0 3 [?p2, ?p3]) (PingTimeout ''a'') = [?p2, ?p3]"
    unfolding W_def by (simp_all add: pending_for_def)
  show ?thesis
    unfolding r2 r3 r7 p2 p3 by simp
qed


section \<open>The admission deadline\<close>

subsection \<open>Waiting is preserved by every quiet event\<close>

lemma awaiting_clear_auth:
  "awaiting c h due w \<Longrightarrow> d \<noteq> c \<Longrightarrow> awaiting c h due (clear_auth_timer w d)"
  by (auto simp: awaiting_def clear_auth_timer_def clearTimeout_def split: option.splits)

lemma awaiting_clear_ping:
  "awaiting c h due w \<Longrightarrow> awaiting c h due (clear_ping_timer w d)"
  by (auto simp: awaiting_def clear_ping_timer_def clearTimeout_def split: option.splits)

lemma awaiting_arm_ping:
  "awaiting c h due w \<Longrightarrow> awaiting c h due (arm_ping_timer w d)"
  by (auto simp: awaiting_def arm_ping_timer_def setTimeout_def Let_def split: if_splits)

lemma awaiting_admit:
  "awaiting c h due w \<Longrightarrow> d \<noteq> c \<Longrightarrow>
   awaiting c h due (w\<lparr>hub := (hub w)\<lparr>roomId := r\<rparr>, conns := (conns w)(d := k)\<rparr>)"
  by (auto simp: awaiting_def)

lemma awaiting_onClose:
  "awaiting c h due w \<Longrightarrow> d \<noteq> c \<Longrightarrow> awaiting c h due (onClose (w\<lparr>live := l\<rparr>) d)"
proof -
  assume a: "awaiting c h due w" and d: "d \<noteq> c"
  from a have "awaiting c h due (w\<lparr>live := l\<rparr>)" by (simp add: awaiting_def)
  then show ?thesis unfolding onClose_def
    by (intro awaiting_clear_ping awaiting_clear_auth d)
qed

lemma awaiting_onConnect:
  assumes "awaiting c h due w" and "d \<noteq> c" and "onConnect (host_connect w d) d ex = (w', out)"
  shows "awaiting c h due w' \<and> calm c out"
  using assms
  by (auto simp: awaiting_def calm_def onConnect_def host_connect_def setTimeout_def Let_def
      split: if_splits)

lemma calm_simps:
  "calm c []"
  "calm c [sendError d code msg] \<longleftrightarrow> \<not> (d = c \<and> code = ''unauthorized'' \<and> msg = ''auth timeout'')"
  "d \<noteq> c \<Longrightarrow> calm c [sendError d code msg, CloseConn d n r]"
  "d \<noteq> c \<Longrightarrow> calm c [Send d p]"
  by (auto simp: calm_def sendError_def error_obj_def)

lemma calm_typing: "calm c (broadcast w (typing_payload w d msg) ex)"
  by (auto simp: calm_def broadcast_def typing_payload_def error_obj_def)

lemma with_before_not_error: "with_before old m \<noteq> error_obj code msg"
proof
  assume "with_before old m = error_obj code msg"
  then have "map_of (AList.update ''before'' old (spread m)) ''before''
             = map_of [(''type'', JStr ''error''), (''code'', JStr code), (''message'', JStr msg)] ''before''"
    by (simp add: with_before_def error_obj_def)
  then show False by (simp add: update_conv')
qed

lemma calm_trigger: "calm c (broadcast w (with_before old m) ex)"
  using with_before_not_error [of old m "''unauthorized''" "''auth timeout''"]
  by (auto simp: calm_def broadcast_def)

lemma onMessage_shape:
  assumes "onMessage e w d raw = (w', out)"
  shows "(w' = w \<and>
            ((\<exists>code msg. out = [sendError d code msg] \<and> msg \<noteq> ''auth timeout'') \<or>
             (\<exists>code msg n r m. out = [sendError d code msg, CloseConn d n r] \<and>
                 raw = Some m \<and> get_prop m ''type'' = Some (JStr ''auth'')) \<or>
             (\<exists>m. out = broadcast w (typing_payload w d m) (Some [d])))) \<or>
         (\<exists>room k m. w' = arm_ping_timer (clear_auth_timer
                (w\<lparr>hub := (hub w)\<lparr>roomId := Some room\<rparr>, conns := (conns w)(d := k)\<rparr>) d) d \<and>
             out = [Send d (JObj [(''type'', JStr ''auth:ok'')])] \<and>
             raw = Some m \<and> get_prop m ''type'' = Some (JStr ''auth'')) \<or>
         (\<exists>p. w' = arm_ping_timer (clear_ping_timer w d) d \<and> authed (conns w d) \<and> out = [Send d p])"
proof (cases raw)
  case None
  with assms show ?thesis by (auto simp: onMessage_atomic)
next
  case (Some m)
  show ?thesis
  proof (cases "get_prop m ''type'' = Some (JStr ''auth'')")
    case True
    with assms Some show ?thesis
      by (simp add: onMessage_atomic Let_def split: option.splits if_splits) (blast+)
  next
    case False
    with assms Some show ?thesis
      by (simp add: onMessage_atomic Let_def split: option.splits if_splits) (blast+)
  qed
qed

lemma awaiting_onMessage_other:
  assumes a: "awaiting c h due w" and d: "d \<noteq> c" and r: "onMessage e w d raw = (w', out)"
  shows "awaiting c h due w' \<and> calm c out"
  using onMessage_shape [OF r] a d
  by (auto simp: calm_simps calm_typing
      intro: awaiting_arm_ping awaiting_clear_ping awaiting_clear_auth awaiting_admit)

lemma awaiting_onMessage_self:
  assumes a: "awaiting c h due w"
    and q: "case raw of None \<Rightarrow> True | Some msg \<Rightarrow> get_prop msg ''type'' \<noteq> Some (JStr ''auth'')"
    and r: "onMessage e w c raw = (w', out)"
  shows "awaiting c h due w' \<and> calm c out"
proof -
  from a have na: "\<not> authed (conns w c)" by (simp add: awaiting_def)
  from onMessage_shape [OF r] a q na show ?thesis
    by (auto simp: calm_simps calm_typing)
qed

lemma awaiting_run_callback:
  assumes a: "awaiting c h due w"
    and cb: "cb \<noteq> AuthTimeout c"
    and r: "run_callback w cb = (w', out)"
  shows "awaiting c h due w' \<and> calm c out"
proof (cases cb)
  case (AuthTimeout d)
  with cb have d: "d \<noteq> c" by simp
  from r AuthTimeout have w': "w' = w\<lparr>hub := (hub w)\<lparr>authTimers := (authTimers (hub w))(d := None)\<rparr>\<rparr>"
    and out: "out = [] \<or> out = [sendError d ''unauthorized'' ''auth timeout'', CloseConn d 4401 ''auth required'']"
    by (auto simp: sendError_def split: if_splits)
  from a have "awaiting c h due w'" unfolding w' by (simp add: awaiting_def)
  moreover from out d have "calm c out" by (auto simp: calm_simps)
  ultimately show ?thesis by simp
next
  case (PingTimeout d)
  show ?thesis
  proof (cases "authed (conns w d)")
    case False
    with r PingTimeout a show ?thesis by (simp add: calm_simps)
  next
    case True
    with a have d: "d \<noteq> c" by (auto simp: awaiting_def)
    from r PingTimeout True
    have w': "w' = w\<lparr>hub := (hub w)\<lparr>pingTimers := (pingTimers (hub w))(d := None)\<rparr>\<rparr>"
      and out: "out = [sendError d ''ping_timeout'' ''ping timeout - connection will be closed'',
                       CloseConn d 1000 ''ping timeout'']"
      by (auto simp: sendError_def)
    from a have "awaiting c h due w'" unfolding w' by (simp add: awaiting_def)
    moreover from out d have "calm c out" by (simp add: calm_simps)
    ultimately show ?thesis by simp
  qed
qed

lemma awaiting_fire_other:
  assumes a: "awaiting c h due w" and k: "k \<noteq> h" and r: "fire w k = (w', out)"
  shows "awaiting c h due w' \<and> calm c out"
proof (cases "find (\<lambda>t. fst t = k) (timers w)")
  case None
  with r a show ?thesis by (simp add: fire_def calm_simps)
next
  case (Some t)
  obtain k' due' cb where t: "t = (k', due', cb)" by (cases t)
  from Some have mem: "t \<in> set (timers w)" and fk: "fst t = k"
    by (auto simp: find_Some_iff)
  from a have uniq: "\<forall>t \<in> set (timers w). snd (snd t) = AuthTimeout c \<longrightarrow> t = (h, due, AuthTimeout c)"
    by (simp add: awaiting_def)
  have cb: "cb \<noteq> AuthTimeout c"
  proof
    assume "cb = AuthTimeout c"
    with uniq mem t have "t = (h, due, AuthTimeout c)" by auto
    with fk k show False by simp
  qed
  from a k have a': "awaiting c h due (w\<lparr>timers := clearTimeout k (timers w)\<rparr>)"
    by (auto simp: awaiting_def clearTimeout_def)
  show ?thesis
  proof (cases "clock w < due'")
    case True
    with r Some t a show ?thesis by (simp add: fire_def calm_simps)
  next
    case False
    with r Some t
    have "run_callback (w\<lparr>timers := clearTimeout k (timers w)\<rparr>) cb = (w', out)"
      by (simp add: fire_def)
    from awaiting_run_callback [OF a' cb this] show ?thesis .
  qed
qed

lemma onRequest_shape:
  assumes "onRequest e w rq = (w', out, resp)"
  shows "authTimers (hub w') = authTimers (hub w) \<and> pingTimers (hub w') = pingTimers (hub w) \<and>
         conns w' = conns w \<and> timers w' = timers w \<and> timer_seq w' = timer_seq w \<and>
         (out = [] \<or> (\<exists>p m ex. out = broadcast w' (with_before p m) ex))"
proof (cases "pathname rq = ''/broadcast'' \<and> http_method rq = ''POST''")
  case True
  with assms show ?thesis
    by (auto simp: onRequest_def Let_def split: option.splits if_splits prod.splits)
next
  case False
  with assms show ?thesis
    by (auto simp: onRequest_def split: if_splits)
qed

lemma awaiting_onRequest:
  assumes a: "awaiting c h due w" and r: "onRequest e w rq = (w', out, resp)"
  shows "awaiting c h due w' \<and> calm c out"
  using onRequest_shape [OF r] a
  by (auto simp: awaiting_def calm_simps calm_trigger)

lemma step_quiet:
  assumes a: "awaiting c h due w" and q: "quiet c h ev" and r: "step e w ev = (w', out)"
  shows "awaiting c h due w' \<and> calm c out"
proof (cases ev)
  case (Connect d ex)
  with a q r show ?thesis by (auto dest: awaiting_onConnect)
next
  case (Message d raw)
  show ?thesis
  proof (cases "d = c")
    case True
    with a q r Message show ?thesis by (auto dest: awaiting_onMessage_self)
  next
    case False
    with a r Message show ?thesis by (auto dest: awaiting_onMessage_other)
  qed
next
  case (Close d)
  with a q r show ?thesis by (auto simp: calm_simps intro: awaiting_onClose)
next
  case (Fire k)
  with a q r show ?thesis by (auto dest: awaiting_fire_other)
next
  case (Request rq)
  with a r show ?thesis by (auto dest: awaiting_onRequest split: prod.splits)
next
  case (Advance n)
  with a r show ?thesis by (auto simp: awaiting_def calm_simps)
qed

lemma calm_append: "calm c (xs @ ys) \<longleftrightarrow> calm c xs \<and> calm c ys"
  by (auto simp: calm_def)


lemma run_quiet:
  assumes "awaiting c h due w" and "\<forall>ev \<in> set evs. quiet c h ev" and "run e w evs = (w', out)"
  shows "awaiting c h due w' \<and> calm c out"
  using assms
proof (induction evs arbitrary: w w' out)
  case Nil
  then show ?case by (simp add: calm_simps)
next
  case (Cons ev evs)
  obtain w1 out1 where s: "step e w ev = (w1, out1)" by (cases "step e w ev")
  obtain w2 out2 where t: "run e w1 evs = (w2, out2)" by (cases "run e w1 evs")
  from Cons.prems(3) s t have eq: "w' = w2" "out = out1 @ out2" by simp_all
  from Cons.prems(2) have q: "quiet c h ev" and qs: "\<forall>ev \<in> set evs. quiet c h ev" by simp_all
  from step_quiet [OF Cons.prems(1) q s] have a1: "awaiting c h due w1" and c1: "calm c out1"
    by simp_all
  from Cons.IH [OF a1 qs t] have "awaiting c h due w2" and "calm c out2" by simp_all
  with c1 eq show ?case by (simp add: calm_append)
qed


subsection \<open>Handles in use stay issued\<close>

text \<open>
  The condition \<open>issued\<close> holds of a fresh hub and survives every event, so it holds
  of every world a run can reach.
\<close>

lemma issued_clear_auth: "issued w \<Longrightarrow> issued (clear_auth_timer w d)"
  by (auto simp: issued_def clear_auth_timer_def clearTimeout_def split: option.splits if_splits)

lemma issued_clear_ping: "issued w \<Longrightarrow> issued (clear_ping_timer w d)"
  by (auto simp: issued_def clear_ping_timer_def clearTimeout_def split: option.splits if_splits)

lemma issued_arm_ping: "issued w \<Longrightarrow> issued (arm_ping_timer w d)"
  by (fastforce simp: issued_def arm_ping_timer_def setTimeout_def Let_def split: if_splits)

lemma issued_admit:
  "issued w \<Longrightarrow> issued (w\<lparr>hub := (hub w)\<lparr>roomId := r\<rparr>, conns := k\<rparr>)"
  by (simp add: issued_def)

lemma issued_onMessage:
  assumes "issued w" and "onMessage e w d raw = (w', out)"
  shows "issued w'"
  using onMessage_shape [OF assms(2)] assms(1)
  by (auto intro: issued_arm_ping issued_clear_ping issued_clear_auth issued_admit)

lemma issued_onConnect:
  assumes "issued w" and "onConnect (host_connect w d) d ex = (w', out)"
  shows "issued w'"
  using assms
  by (fastforce simp: issued_def onConnect_def host_connect_def setTimeout_def Let_def
      split: if_splits)

lemma issued_fire:
  assumes "issued w" and "fire w k = (w', out)"
  shows "issued w'"
proof (cases "find (\<lambda>t. fst t = k) (timers w)")
  case None
  with assms show ?thesis by (simp add: fire_def)
next
  case (Some t)
  obtain k' due' cb where t: "t = (k', due', cb)" by (cases t)
  from assms(1) have i: "issued (w\<lparr>timers := clearTimeout k (timers w)\<rparr>)"
    by (auto simp: issued_def clearTimeout_def)
  show ?thesis
  proof (cases "clock w < due'")
    case True
    with assms Some t show ?thesis by (simp add: fire_def)
  next
    case False
    with assms(2) Some t
    have r: "run_callback (w\<lparr>timers := clearTimeout k (timers w)\<rparr>) cb = (w', out)"
      by (simp add: fire_def)
    with i show ?thesis
      by (cases cb) (fastforce simp: issued_def split: if_splits)+
  qed
qed

lemma issued_step:
  assumes "issued w" and "step e w ev = (w', out)"
  shows "issued w'"
proof (cases ev)
  case (Connect d ex)
  with assms show ?thesis by (auto dest: issued_onConnect)
next
  case (Message d raw)
  with assms show ?thesis by (auto dest: issued_onMessage)
next
  case (Close d)
  have "issued (w\<lparr>live := removeAll d (live w)\<rparr>)"
    using assms(1) by (simp add: issued_def)
  with assms(2) Close show ?thesis
    by (auto simp: onClose_def intro: issued_clear_ping issued_clear_auth)
next
  case (Fire k)
  with assms show ?thesis by (auto dest: issued_fire)
next
  case (Request rq)
  obtain w1 o1 resp where r: "onRequest e w rq = (w1, o1, resp)"
    by (cases "onRequest e w rq") auto
  from onRequest_shape [OF r] assms(1) have "issued w1" by (simp add: issued_def)
  with assms(2) Request r show ?thesis by simp
next
  case (Advance n)
  with assms show ?thesis by (fastforce simp: issued_def)
qed

lemma issued_run:
  assumes "issued w" and "run e w evs = (w', out)"
  shows "issued w'"
  using assms
proof (induction evs arbitrary: w w' out)
  case Nil
  then show ?case by simp
next
  case (Cons ev evs)
  obtain w1 out1 where s: "step e w ev = (w1, out1)" by (cases "step e w ev")
  obtain w2 out2 where t: "run e w1 evs = (w2, out2)" by (cases "run e w1 evs")
  from Cons.prems(2) s t have "w' = w2" by simp
  with Cons.IH [OF issued_step [OF Cons.prems(1) s] t] show ?case by simp
qed

lemma issued_init: "issued init_world"
  by (simp add: issued_def init_world_def)

subsection \<open>Opening a connection starts the wait, the timer ends it\<close>

lemma connect_awaiting:
  assumes i: "issued w" and f: "AuthTimeout c \<notin> (snd \<circ> snd) ` set (timers w)"
    and r: "step e w (Connect c ex) = (w', out)"
  shows "awaiting c (Suc (timer_seq w)) (clock w + 10000) w'"
proof -
  let ?h = "Suc (timer_seq w)"
  from r have tm: "timers w' = timers w @ [(?h, clock w + 10000, AuthTimeout c)]"
    and at: "authTimers (hub w') = (authTimers (hub w))(c \<mapsto> ?h)"
    and pt: "pingTimers (hub w') = pingTimers (hub w)"
    and cn: "conns w' c = \<lparr>authed = False, userId = None\<rparr>"
    and sq: "timer_seq w' = ?h"
    by (auto simp: onConnect_def host_connect_def setTimeout_def Let_def)
  from i have old: "\<forall>t \<in> set (timers w). fst t \<noteq> ?h"
    by (fastforce simp: issued_def)
  from f have nocb: "\<forall>t \<in> set (timers w). snd (snd t) \<noteq> AuthTimeout c"
    by force
  have am: "\<forall>d. authTimers (hub w) d \<noteq> Some ?h"
  proof
    fix d
    show "authTimers (hub w) d \<noteq> Some ?h"
    proof
      assume "authTimers (hub w) d = Some ?h"
      with i have "?h \<le> timer_seq w" unfolding issued_def by blast
      then show False by simp
    qed
  qed
  have pm: "\<forall>d. pingTimers (hub w) d \<noteq> Some ?h"
  proof
    fix d
    show "pingTimers (hub w) d \<noteq> Some ?h"
    proof
      assume "pingTimers (hub w) d = Some ?h"
      with i have "?h \<le> timer_seq w" unfolding issued_def by blast
      then show False by simp
    qed
  qed
  show ?thesis
    unfolding awaiting_def tm at pt cn sq
    using old nocb am pm by auto
qed

lemma fire_awaiting:
  assumes a: "awaiting c h due w" and t: "due \<le> clock w"
  shows "snd (fire w h) = [Send c (error_obj ''unauthorized'' ''auth timeout''),
                           CloseConn c 4401 ''auth required'']
         \<and> \<not> pending (fst (fire w h)) h"
proof -
  from a have mem: "(h, due, AuthTimeout c) \<in> set (timers w)"
    and uniq: "\<forall>t \<in> set (timers w). fst t = h \<longrightarrow> t = (h, due, AuthTimeout c)"
    and na: "\<not> authed (conns w c)"
    by (auto simp: awaiting_def)
  from mem have "find (\<lambda>t. fst t = h) (timers w) \<noteq> None"
    by (simp add: find_None_iff) blast
  then obtain x where x: "find (\<lambda>t. fst t = h) (timers w) = Some x" by auto
  then have "x \<in> set (timers w)" "fst x = h" by (auto simp: find_Some_iff)
  with uniq have "x = (h, due, AuthTimeout c)" by auto
  with x t na show ?thesis
    by (auto simp: fire_def pending_def clearTimeout_def)
qed

text \<open>
  C7. A connection \<open>c\<close> opens under a new handle in any world that a run of events
  has reached from a fresh hub. Whatever happens next, as long as \<open>c\<close> sends no \<open>auth\<close>
  frame, does not close, and its admission timer has not fired: once 10 s have passed since
  the opening, the firing of that timer sends \<open>c\<close> the \<open>unauthorized\<close> /
  \<open>auth timeout\<close> error and then closes it with code 4401. Nothing before that closed
  \<open>c\<close> or sent it that error, and the fired timer is no longer pending, so the error is
  sent exactly once. The idle timeout of an authenticated connection closes with the
  different code 1000.
\<close>

theorem C7_admission_timeout:
  assumes "run e init_world pre = (w0, out0)"
    and "AuthTimeout c \<notin> (snd \<circ> snd) ` set (timers w0)"
    and "step e w0 (Connect c ex) = (w1, out1)"
    and "\<forall>ev \<in> set evs. quiet c (Suc (timer_seq w0)) ev"
    and "run e w1 evs = (w2, out2)"
    and "clock w0 + 10000 \<le> clock w2"
  shows "calm c out2 \<and>
         snd (fire w2 (Suc (timer_seq w0)))
           = [Send c (error_obj ''unauthorized'' ''auth timeout''),
              CloseConn c 4401 ''auth required''] \<and>
         \<not> pending (fst (fire w2 (Suc (timer_seq w0)))) (Suc (timer_seq w0)) \<and>
         (authed (conns w d) \<longrightarrow>
            snd (run_callback w (PingTimeout d))
              = [Send d (error_obj ''ping_timeout'' ''ping timeout - connection will be closed''),
                 CloseConn d 1000 ''ping timeout''])"
proof -
  from issued_run [OF issued_init assms(1)] have i: "issued w0" .
  from connect_awaiting [OF i assms(2,3)]
  have a1: "awaiting c (Suc (timer_seq w0)) (clock w0 + 10000) w1" .
  from run_quiet [OF a1 assms(4,5)]
  have a2: "awaiting c (Suc (timer_seq w0)) (clock w0 + 10000) w2" and c2: "calm c out2"
    by simp_all
  from fire_awaiting [OF a2 assms(6)] c2 show ?thesis by simp
qed

theorem C7_witness:
  "run accepting_env init_world [] = (init_world, []) \<and>
   AuthTimeout ''a'' \<notin> (snd \<circ> snd) ` set (timers init_world) \<and>
   quiet ''a'' 1 (Message ''a'' (Some typing_frame)) \<and> quiet ''a'' 1 (Advance 10000) \<and>
   clock (fst (run accepting_env opened_world [Message ''a'' (Some typing_frame), Advance 10000])) = 10000 \<and>
   snd (run accepting_env opened_world [Message ''a'' (Some typing_frame), Advance 10000])
     = [sendError ''a'' ''unauthorized'' ''auth first''] \<and>
   snd (fire (fst (run accepting_env opened_world [Message ''a'' (Some typing_frame), Advance 10000])) 1)
     = [Send ''a'' (error_obj ''unauthorized'' ''auth timeout''),
        CloseConn ''a'' 4401 ''auth required'']"
proof -
  let ?evs = "[Message ''a'' (Some typing_frame), Advance 10000]"
  have p: "run accepting_env init_world [] = (init_world, [])"
    by simp
  have f: "AuthTimeout ''a'' \<notin> (snd \<circ> snd) ` set (timers init_world)"
    by (simp add: init_world_def)
  have s: "step accepting_env init_world (Connect ''a'' (Some ''r1''))
             = (opened_world, snd (step accepting_env init_world (Connect ''a'' (Some ''r1''))))"
    by (simp add: opened_world_def)
  have q: "\<forall>ev \<in> set ?evs. quiet ''a'' (Suc (timer_seq init_world)) ev"
    by (simp add: typing_frame_def)
  have m: "onMessage accepting_env opened_world ''a'' (Some typing_frame)
             = (opened_world, [sendError ''a'' ''unauthorized'' ''auth first''])"
    by (simp add: run_defs)
  have r: "run accepting_env opened_world ?evs
             = (opened_world\<lparr>clock := clock opened_world + 10000\<rparr>,
                [sendError ''a'' ''unauthorized'' ''auth first''])"
    by (simp add: m)
  have ck: "clock opened_world = 0" "timer_seq init_world = 0" "clock init_world = 0"
    by (simp_all add: run_defs)
  have t: "clock init_world + 10000 \<le> clock (opened_world\<lparr>clock := clock opened_world + 10000\<rparr>)"
    by (simp add: ck)
  from C7_admission_timeout [OF p f s q r t, of init_world "''a''"] f q r ck
  show ?thesis by simp
qed

section \<open>Where a deadline is kept\<close>

text \<open>
  C2 as stated fails: the fields of the hub hold no wake-up time. Connection \<open>a\<close>
  opening at time 0 and at time 5000 leaves the same hub state, the map holding handle 1,
  while the deadline is 10000 in one world and 15000 in the other: only the host's pending
  timer knows it.
\<close>

theorem C2_counterexample:
  "hub (fst (step accepting_env init_world (Connect ''a'' (Some ''r1''))))
     = hub (fst (step accepting_env (init_world\<lparr>clock := 5000\<rparr>) (Connect ''a'' (Some ''r1'')))) \<and>
   timers (fst (step accepting_env init_world (Connect ''a'' (Some ''r1''))))
     = [(1, 10000, AuthTimeout ''a'')] \<and>
   timers (fst (step accepting_env (init_world\<lparr>clock := 5000\<rparr>) (Connect ''a'' (Some ''r1''))))
     = [(1, 15000, AuthTimeout ''a'')]"
  by (simp add: run_defs)


lemma arm_ping_timer_hub:
  "hub (arm_ping_timer w c) = (hub w)\<lparr>pingTimers := (pingTimers (hub w))(c \<mapsto> Suc (timer_seq w))\<rparr>"
  by (simp add: arm_ping_timer_def setTimeout_def Let_def)

lemma clear_timer_seq:
  "timer_seq (clear_auth_timer w c) = timer_seq w" "timer_seq (clear_ping_timer w c) = timer_seq w"
  by (simp_all add: clear_auth_timer_def clear_ping_timer_def split: option.splits)


text \<open>What a handler leaves in the hub does not depend on the clock.\<close>

lemma hub_ignores_clock:
  "hub (fst (onConnect (w\<lparr>clock := t\<rparr>) c ex)) = hub (fst (onConnect w c ex))"
  "hub (fst (onMessage e (w\<lparr>clock := t\<rparr>) c raw)) = hub (fst (onMessage e w c raw))"
  "hub (fst (onMessage_resume (w\<lparr>clock := t\<rparr>) c msg room res))
     = hub (fst (onMessage_resume w c msg room res))"
proof -
  show "hub (fst (onConnect (w\<lparr>clock := t\<rparr>) c ex)) = hub (fst (onConnect w c ex))"
    by (simp add: onConnect_def setTimeout_def Let_def)
  show "hub (fst (onMessage e (w\<lparr>clock := t\<rparr>) c raw)) = hub (fst (onMessage e w c raw))"
    by (simp add: onMessage_atomic Let_def arm_ping_timer_hub clear_timer_seq
        clear_auth_timer_def clear_ping_timer_def split: option.splits)
  show "hub (fst (onMessage_resume (w\<lparr>clock := t\<rparr>) c msg room res))
          = hub (fst (onMessage_resume w c msg room res))"
    by (simp add: onMessage_resume_def Let_def arm_ping_timer_hub clear_timer_seq
        clear_auth_timer_def split: option.splits)
qed

text \<open>Opening a connection arms its admission timer.\<close>

lemma connect_arms:
  "timers (fst (onConnect w c ex))
     = timers w @ [(Suc (timer_seq w), clock w + 10000, AuthTimeout c)]"
  "authTimers (hub (fst (onConnect w c ex))) c = Some (Suc (timer_seq w))"
  by (simp_all add: onConnect_def setTimeout_def Let_def)

text \<open>
  C2 (amended). Every deadline is a one-shot host timer armed with a fixed delay from the
  moment of arming, and the hub keeps only its handle. Opening a connection arms the
  admission timer, due 10000 ms later, and the map \<open>authTimers\<close> remembers its handle.
  A successful participant check arms the idle timer, due 30000 ms after the answer,
  having cleared the admission timer the map remembered, and \<open>pingTimers\<close> remembers
  the handle; so does an \<open>auth\<close> frame handled without interruption. A ping of an
  authenticated connection clears the idle timer the map remembered and arms a new one, due
  30000 ms after the ping. The hub stores no time at all: the hub state that opening a
  connection, handling a frame or resuming after the check leaves is the same whatever the
  clock reads.
\<close>

theorem C2_deadlines_are_host_timers:
  "timers (fst (onConnect w c ex))
     = timers w @ [(Suc (timer_seq w), clock w + 10000, AuthTimeout c)] \<and>
   authTimers (hub (fst (onConnect w c ex))) c = Some (Suc (timer_seq w)) \<and>
   (success res \<and> authTimers (hub w) c \<noteq> Some 0 \<longrightarrow>
      timers (fst (onMessage_resume w c msg room res))
        = filter (\<lambda>t. Some (fst t) \<noteq> authTimers (hub w) c) (timers w)
            @ [(Suc (timer_seq w), clock w + 30000, PingTimeout c)] \<and>
      pingTimers (hub (fst (onMessage_resume w c msg room res))) c = Some (Suc (timer_seq w))) \<and>
   (get_prop ma ''type'' = Some (JStr ''auth'') \<and> get_prop ma ''token'' = Some token \<and>
    truthy_val token \<and> js_or (get_prop ma ''roomId'') (roomId (hub w)) = Some rm \<and>
    truthy_val rm \<and> success (checkParticipant e rm token) \<and> authTimers (hub w) c \<noteq> Some 0 \<longrightarrow>
      timers (fst (onMessage e w c (Some ma)))
        = filter (\<lambda>t. Some (fst t) \<noteq> authTimers (hub w) c) (timers w)
            @ [(Suc (timer_seq w), clock w + 30000, PingTimeout c)] \<and>
      pingTimers (hub (fst (onMessage e w c (Some ma)))) c = Some (Suc (timer_seq w))) \<and>
   (authed (conns w c) \<and> get_prop mp ''type'' = Some (JStr ''ping'') \<and>
    pingTimers (hub w) c \<noteq> Some 0 \<longrightarrow>
      timers (fst (onMessage e w c (Some mp)))
        = filter (\<lambda>t. Some (fst t) \<noteq> pingTimers (hub w) c) (timers w)
            @ [(Suc (timer_seq w), clock w + 30000, PingTimeout c)] \<and>
      pingTimers (hub (fst (onMessage e w c (Some mp)))) c = Some (Suc (timer_seq w))) \<and>
   hub (fst (onConnect (w\<lparr>clock := t\<rparr>) c ex)) = hub (fst (onConnect w c ex)) \<and>
   hub (fst (onMessage e (w\<lparr>clock := t\<rparr>) c raw)) = hub (fst (onMessage e w c raw)) \<and>
   hub (fst (onMessage_resume (w\<lparr>clock := t\<rparr>) c msg room res))
     = hub (fst (onMessage_resume w c msg room res))"
proof -
  have a: "success res \<and> authTimers (hub w) c \<noteq> Some 0 \<longrightarrow>
      timers (fst (onMessage_resume w c msg room res))
        = filter (\<lambda>t. Some (fst t) \<noteq> authTimers (hub w) c) (timers w)
            @ [(Suc (timer_seq w), clock w + 30000, PingTimeout c)] \<and>
      pingTimers (hub (fst (onMessage_resume w c msg room res))) c = Some (Suc (timer_seq w))"
    for res msg room
  proof
    assume h: "success res \<and> authTimers (hub w) c \<noteq> Some 0"
    have q: "onMessage_resume w c msg room res
               = (fst (onMessage_resume w c msg room res), snd (onMessage_resume w c msg room res))"
      by simp
    from h resume_success [OF _ _ q] show "timers (fst (onMessage_resume w c msg room res))
        = filter (\<lambda>t. Some (fst t) \<noteq> authTimers (hub w) c) (timers w)
            @ [(Suc (timer_seq w), clock w + 30000, PingTimeout c)] \<and>
      pingTimers (hub (fst (onMessage_resume w c msg room res))) c = Some (Suc (timer_seq w))"
      by simp
  qed
  have b: "get_prop ma ''type'' = Some (JStr ''auth'') \<and> get_prop ma ''token'' = Some token \<and>
    truthy_val token \<and> js_or (get_prop ma ''roomId'') (roomId (hub w)) = Some rm \<and>
    truthy_val rm \<and> success (checkParticipant e rm token) \<and> authTimers (hub w) c \<noteq> Some 0 \<longrightarrow>
      timers (fst (onMessage e w c (Some ma)))
        = filter (\<lambda>t. Some (fst t) \<noteq> authTimers (hub w) c) (timers w)
            @ [(Suc (timer_seq w), clock w + 30000, PingTimeout c)] \<and>
      pingTimers (hub (fst (onMessage e w c (Some ma)))) c = Some (Suc (timer_seq w))"
  proof
    assume h: "get_prop ma ''type'' = Some (JStr ''auth'') \<and> get_prop ma ''token'' = Some token \<and>
      truthy_val token \<and> js_or (get_prop ma ''roomId'') (roomId (hub w)) = Some rm \<and>
      truthy_val rm \<and> success (checkParticipant e rm token) \<and> authTimers (hub w) c \<noteq> Some 0"
    then have "onMessage e w c (Some ma) = onMessage_resume w c ma rm (checkParticipant e rm token)"
      by (intro uninterrupted_admission) simp_all
    with h a [of "checkParticipant e rm token" ma rm]
    show "timers (fst (onMessage e w c (Some ma)))
        = filter (\<lambda>t. Some (fst t) \<noteq> authTimers (hub w) c) (timers w)
            @ [(Suc (timer_seq w), clock w + 30000, PingTimeout c)] \<and>
      pingTimers (hub (fst (onMessage e w c (Some ma)))) c = Some (Suc (timer_seq w))"
      by simp
  qed
  have p: "authed (conns w c) \<and> get_prop mp ''type'' = Some (JStr ''ping'') \<and>
    pingTimers (hub w) c \<noteq> Some 0 \<longrightarrow>
      timers (fst (onMessage e w c (Some mp)))
        = filter (\<lambda>t. Some (fst t) \<noteq> pingTimers (hub w) c) (timers w)
            @ [(Suc (timer_seq w), clock w + 30000, PingTimeout c)] \<and>
      pingTimers (hub (fst (onMessage e w c (Some mp)))) c = Some (Suc (timer_seq w))"
    using ping_rearms [of w c mp e] by blast
  show ?thesis
    by (intro conjI a b p connect_arms hub_ignores_clock)
qed

theorem C2_witness:
  "timers (fst (onConnect init_world ''a'' (Some ''r1''))) = [(1, 10000, AuthTimeout ''a'')] \<and>
   authTimers (hub (fst (onConnect init_world ''a'' (Some ''r1'')))) ''a'' = Some 1 \<and>
   success (checkParticipant accepting_env (JStr ''r1'') (JStr ''tok'')) \<and>
   timers (fst (onMessage_resume (opened_world\<lparr>clock := 2000\<rparr>) ''a'' hinted_auth_frame (JStr ''r1'')
          (checkParticipant accepting_env (JStr ''r1'') (JStr ''tok''))))
     = [(2, 32000, PingTimeout ''a'')] \<and>
   timers (fst (onMessage accepting_env opened_world ''a'' (Some hinted_auth_frame)))
     = [(2, 30000, PingTimeout ''a'')] \<and>
   pingTimers (hub (fst (onMessage accepting_env opened_world ''a'' (Some hinted_auth_frame)))) ''a''
     = Some 2 \<and>
   authed (conns mixed_world ''a'') \<and>
   timers (fst (onMessage accepting_env mixed_world ''a'' (Some ping_frame)))
     = [(3, 10000, AuthTimeout ''b''), (4, 30000, PingTimeout ''a'')] \<and>
   pingTimers (hub (fst (onMessage accepting_env mixed_world ''a'' (Some ping_frame)))) ''a''
     = Some 4"
proof -
  let ?res = "checkParticipant accepting_env (JStr ''r1'') (JStr ''tok'')"
  have s: "success ?res"
    by (simp add: checkParticipant_def accepting_env_def)
  have i: "timers init_world = []" "timer_seq init_world = 0" "clock init_world = 0"
    by (simp_all add: init_world_def)
  have f: "get_prop hinted_auth_frame ''type'' = Some (JStr ''auth'')"
    "get_prop hinted_auth_frame ''token'' = Some (JStr ''tok'')"
    "js_or (get_prop hinted_auth_frame ''roomId'') (roomId (hub opened_world)) = Some (JStr ''r1'')"
    "get_prop ping_frame ''type'' = Some (JStr ''ping'')"
    by (simp_all add: hinted_auth_frame_def ping_frame_def js_or_def)
  from C2_deadlines_are_host_timers
         [where w = init_world and c = "''a''" and ex = "Some ''r1''"]
  have c1: "timers (fst (onConnect init_world ''a'' (Some ''r1''))) = [(1, 10000, AuthTimeout ''a'')]"
    "authTimers (hub (fst (onConnect init_world ''a'' (Some ''r1'')))) ''a'' = Some 1"
    by (simp_all add: i)
  from C2_deadlines_are_host_timers
         [where w = "opened_world\<lparr>clock := 2000\<rparr>" and c = "''a''" and res = ?res
            and msg = hinted_auth_frame and room = "JStr ''r1''"] s
  have c2: "timers (fst (onMessage_resume (opened_world\<lparr>clock := 2000\<rparr>) ''a'' hinted_auth_frame
              (JStr ''r1'') ?res)) = [(2, 32000, PingTimeout ''a'')]"
    by (simp add: opened_facts)
  from C2_deadlines_are_host_timers
         [where w = opened_world and c = "''a''" and ma = hinted_auth_frame
            and token = "JStr ''tok''" and rm = "JStr ''r1''" and e = accepting_env] s f
  have c3: "timers (fst (onMessage accepting_env opened_world ''a'' (Some hinted_auth_frame)))
              = [(2, 30000, PingTimeout ''a'')]"
    "pingTimers (hub (fst (onMessage accepting_env opened_world ''a'' (Some hinted_auth_frame)))) ''a''
       = Some 2"
    by (simp_all add: opened_facts)
  from C2_deadlines_are_host_timers
         [where w = mixed_world and c = "''a''" and mp = ping_frame and e = accepting_env] f
  have c4: "timers (fst (onMessage accepting_env mixed_world ''a'' (Some ping_frame)))
              = [(3, 10000, AuthTimeout ''b''), (4, 30000, PingTimeout ''a'')]"
    "pingTimers (hub (fst (onMessage accepting_env mixed_world ''a'' (Some ping_frame)))) ''a''
       = Some 4"
    by (simp_all add: mixed_more)
  from c1 c2 c3 c4 s mixed_more(1) show ?thesis by simp
qed

end
